theory Spec2Isabelle
  imports Main
begin

section \<open>Reviewer assignment from pull-request labels (.github/update_reviewers.py)\<close>

subsection \<open>Python values used by the script\<close>

text \<open>
  A Python \<open>set\<close> of strings is kept as a duplicate-free list, in insertion order.
  The iteration order of a Python set depends on string hashing and is not fixed, so
  every statement below reads such a list only through \<open>set\<close>, \<open>distinct\<close> and
  \<open>count_list\<close>, never through the position of an element.
\<close>

type_synonym pyset = "string list"

definition set_add :: "string \<Rightarrow> pyset \<Rightarrow> pyset" where
  \<comment> \<open>\<open>s.add(x)\<close>: no effect when \<open>x\<close> is already a member.\<close>
  "set_add x s = (if x \<in> set s then s else s @ [x])"

definition set_remove :: "string \<Rightarrow> pyset \<Rightarrow> pyset" where
  \<comment> \<open>\<open>s.remove(x)\<close> for a member \<open>x\<close> (the script checks membership first).\<close>
  "set_remove x s = removeAll x s"

definition startswith :: "string \<Rightarrow> string \<Rightarrow> bool" where
  \<comment> \<open>\<open>s.startswith(p)\<close>\<close>
  "startswith s p = (take (length p) s = p)"

definition slice_from :: "nat \<Rightarrow> string \<Rightarrow> string" where
  \<comment> \<open>\<open>s[n:]\<close> for a non-negative literal \<open>n\<close>: empty when \<open>s\<close> is shorter.\<close>
  "slice_from n s = drop n s"

text \<open>The decimal text an f-string produces for a Python integer.\<close>

fun str_nat :: "nat \<Rightarrow> string" where
  "str_nat n =
     (if n < 10 then [''0123456789'' ! n]
      else str_nat (n div 10) @ [''0123456789'' ! (n mod 10)])"

declare str_nat.simps [simp del]

definition str_int :: "int \<Rightarrow> string" where
  "str_int i = (if i < 0 then CHR ''-'' # str_nat (nat (- i)) else str_nat (nat i))"

text \<open>
  The configuration is the dictionary loaded from the YAML file: label name (or
  \<open>default\<close>) to the list of reviewer entries.
\<close>

type_synonym config = "string \<rightharpoonup> string list"

subsection \<open>The hosting platform, as the script sees it\<close>

text \<open>
  Exceptions that can travel through \<open>update_reviewers\<close>. \<open>GithubException\<close> carries
  the text that \<open>str(e)\<close> gives; \<open>TypeError\<close> is what the interpreter raises for a call
  with a wrong number of arguments; \<open>OtherException\<close> stands for any other error (a
  subclass of \<open>Exception\<close>) that a collaborator raises.
\<close>

datatype exn = GithubException string | TypeError | OtherException string

text \<open>
  A pull request object: the author's login, the names of its labels in the order the
  platform lists them, and the response of \<open>create_review_request\<close> to given argument
  lists (\<open>None\<close>: the call returns; \<open>Some e\<close>: it raises \<open>e\<close>).
\<close>

record pull_request =
  user_login :: string
  labels :: "string list"
  create_review_request :: "string list \<Rightarrow> string list \<Rightarrow> exn option"

text \<open>
  \<open>repo.get_pull(pr_id)\<close> either raises, or returns a value that is \<open>None\<close> (falsy) or
  a pull request object (truthy).
\<close>

type_synonym repository = "int \<Rightarrow> exn + pull_request option"

text \<open>What a run does to the outside, in order.\<close>

datatype event =
    Stdout_attempt "string list" "string list"
      \<comment> \<open>the \<open>print\<close> of line 45: the message formats these two lists\<close>
  | Stderr_write string
  | Stderr_traceback exn
      \<comment> \<open>the interpreter's report of an exception that nothing caught\<close>
  | Create_review_request "string list" "string list"

subsection \<open>add_reviewers (lines 11-18)\<close>

fun add_reviewers :: "pyset \<Rightarrow> pyset \<Rightarrow> string list \<Rightarrow> pyset \<times> pyset" where
  "add_reviewers reviewers team_reviewers [] = (reviewers, team_reviewers)"
| "add_reviewers reviewers team_reviewers (reviewer # new_entries) =
     (if startswith reviewer ''@''
      then add_reviewers reviewers (set_add (slice_from 1 reviewer) team_reviewers) new_entries
      else add_reviewers (set_add reviewer reviewers) team_reviewers new_entries)"

subsection \<open>update_reviewers (lines 21-52)\<close>

text \<open>The loop over the labels of the pull request, lines 32-34.\<close>

fun label_loop :: "config \<Rightarrow> pyset \<Rightarrow> pyset \<Rightarrow> string list \<Rightarrow> pyset \<times> pyset" where
  "label_loop config reviewers team_reviewers [] = (reviewers, team_reviewers)"
| "label_loop config reviewers team_reviewers (name # rest) =
     (case config name of
        Some entries \<Rightarrow>
          (case add_reviewers reviewers team_reviewers entries of
             (reviewers', team_reviewers') \<Rightarrow> label_loop config reviewers' team_reviewers' rest)
      | None \<Rightarrow> label_loop config reviewers team_reviewers rest)"

text \<open>Lines 29-37: both sets after the label loop and the \<open>default\<close> entries.\<close>

definition merged_sets :: "config \<Rightarrow> string list \<Rightarrow> pyset \<times> pyset" where
  "merged_sets config label_names =
     (case label_loop config [] [] label_names of
        (reviewers, team_reviewers) \<Rightarrow>
          (case config ''default'' of
             Some entries \<Rightarrow> add_reviewers reviewers team_reviewers entries
           | None \<Rightarrow> (reviewers, team_reviewers)))"

text \<open>Lines 29-40: the two sets that are handed to the review request.\<close>

definition select_reviewers :: "config \<Rightarrow> string list \<Rightarrow> string \<Rightarrow> pyset \<times> pyset" where
  "select_reviewers config label_names pull_request_author =
     (case merged_sets config label_names of
        (reviewers, team_reviewers) \<Rightarrow>
          (if pull_request_author \<in> set reviewers
           then (set_remove pull_request_author reviewers, team_reviewers)
           else (reviewers, team_reviewers)))"

text \<open>
  The whole function: its outcome (\<open>Inr\<close> the returned integer, \<open>Inl\<close> the exception
  that leaves it) and the events of the run. Line 25 calls \<open>sys.stderr.writable\<close> with
  one argument; \<open>writable\<close> takes none, so the call raises \<open>TypeError\<close> before anything
  is written and before line 26 is reached. The \<open>except\<close> clause of line 50 catches
  \<open>GithubException\<close> only.
\<close>

definition update_reviewers :: "config \<Rightarrow> repository \<Rightarrow> int \<Rightarrow> (exn + int) \<times> event list" where
  "update_reviewers config repo pr_id =
     (case repo pr_id of
        Inl e \<Rightarrow> (Inl e, [])
      | Inr None \<Rightarrow> (Inl TypeError, [])
      | Inr (Some pull_request) \<Rightarrow>
          (case select_reviewers config (labels pull_request) (user_login pull_request) of
             (reviewers, team_reviewers) \<Rightarrow>
               (let attempt = [Stdout_attempt reviewers team_reviewers,
                               Create_review_request reviewers team_reviewers]
                in case create_review_request pull_request reviewers team_reviewers of
                     None \<Rightarrow> (Inr 0, attempt)
                   | Some (GithubException detail) \<Rightarrow>
                       (Inr 1,
                        attempt @
                        [Stderr_write (''Cannot assign review request for PR #'' @ str_int pr_id
                                        @ '': '' @ detail @ [CHR 0x0A])])
                   | Some e \<Rightarrow> (Inl e, attempt))))"

subsection \<open>The end of the script (line 79)\<close>

text \<open>
  \<open>sys.exit(update_reviewers(config, repo, pr_id))\<close>: the integer that the function
  returns is the exit status of the process. The script has no handler around the call,
  so an exception that leaves \<open>update_reviewers\<close> reaches the interpreter, which writes
  the traceback to the error stream and ends the process with status 1.
\<close>

definition script_exit :: "config \<Rightarrow> repository \<Rightarrow> int \<Rightarrow> int \<times> event list" where
  "script_exit config repo pr_id =
     (case update_reviewers config repo pr_id of
        (Inr status, events) \<Rightarrow> (status, events)
      | (Inl e, events) \<Rightarrow> (1, events @ [Stderr_traceback e]))"

subsection \<open>Vocabulary for the statements\<close>

text \<open>
  The entries a run hands to \<open>add_reviewers\<close>, in the order it does so: those of each
  label that is a key of the configuration, then those under \<open>default\<close>.
\<close>

definition merged_entries :: "config \<Rightarrow> string list \<Rightarrow> string list" where
  "merged_entries config label_names =
     concat (map (\<lambda>name. case config name of Some entries \<Rightarrow> entries | None \<Rightarrow> [])
                 (label_names @ [''default'']))"

text \<open>The two classes of the classification rule, as sets of names.\<close>

definition individual_entries :: "string list \<Rightarrow> string set" where
  "individual_entries entries = {e \<in> set entries. \<not> startswith e ''@''}"

definition team_entries :: "string list \<Rightarrow> string set" where
  "team_entries entries = slice_from 1 ` {e \<in> set entries. startswith e ''@''}"

section \<open>Properties\<close>

subsection \<open>Sets as duplicate-free lists\<close>

lemma set_set_add: "set (set_add x s) = insert x (set s)"
  by (auto simp: set_add_def)

lemma distinct_set_add: "distinct s \<Longrightarrow> distinct (set_add x s)"
  by (simp add: set_add_def)

lemma set_set_remove: "set (set_remove x s) = set s - {x}"
  by (simp add: set_remove_def)

lemma distinct_set_remove: "distinct s \<Longrightarrow> distinct (set_remove x s)"
  by (simp add: set_remove_def distinct_removeAll)

subsection \<open>What the merging loops compute\<close>

lemma add_reviewers_append:
  "add_reviewers r t (xs @ ys) =
   (case add_reviewers r t xs of (r', t') \<Rightarrow> add_reviewers r' t' ys)"
  by (induction xs arbitrary: r t) simp_all

lemma add_reviewers_fst:
  "set (fst (add_reviewers r t es)) = set r \<union> individual_entries es"
  by (induction es arbitrary: r t) (auto simp: individual_entries_def set_set_add)

lemma add_reviewers_snd:
  "set (snd (add_reviewers r t es)) = set t \<union> team_entries es"
  by (induction es arbitrary: r t) (auto simp: team_entries_def set_set_add)

lemma add_reviewers_distinct:
  "distinct r \<Longrightarrow> distinct t \<Longrightarrow>
   distinct (fst (add_reviewers r t es)) \<and> distinct (snd (add_reviewers r t es))"
  by (induction es arbitrary: r t) (simp_all add: distinct_set_add)

lemma label_loop_entries:
  "label_loop config r t names =
   add_reviewers r t
     (concat (map (\<lambda>name. case config name of Some entries \<Rightarrow> entries | None \<Rightarrow> []) names))"
  by (induction names arbitrary: r t)
     (auto simp: add_reviewers_append split: option.splits prod.splits)

lemma merged_sets_entries:
  "merged_sets config names = add_reviewers [] [] (merged_entries config names)"
  by (auto simp: merged_sets_def merged_entries_def label_loop_entries add_reviewers_append
           split: option.splits prod.splits)

lemma in_merged_entries:
  "e \<in> set (merged_entries config names) \<longleftrightarrow>
   (\<exists>name entries. (name \<in> set names \<or> name = ''default'') \<and> config name = Some entries
        \<and> e \<in> set entries)"
proof
  assume "e \<in> set (merged_entries config names)"
  then obtain name where n: "name \<in> set (names @ [''default''])"
    and e: "e \<in> set (case config name of Some entries \<Rightarrow> entries | None \<Rightarrow> [])"
    unfolding merged_entries_def by auto
  from e obtain entries where "config name = Some entries" "e \<in> set entries"
    by (cases "config name") auto
  with n show "\<exists>name entries. (name \<in> set names \<or> name = ''default'')
      \<and> config name = Some entries \<and> e \<in> set entries"
    by auto
next
  assume "\<exists>name entries. (name \<in> set names \<or> name = ''default'')
      \<and> config name = Some entries \<and> e \<in> set entries"
  then obtain name entries where "name \<in> set (names @ [''default''])"
    "config name = Some entries" "e \<in> set entries"
    by auto
  then show "e \<in> set (merged_entries config names)"
    unfolding merged_entries_def by force
qed

lemma merged_reviewers:
  "set (fst (merged_sets config names)) = individual_entries (merged_entries config names)"
  by (simp add: merged_sets_entries add_reviewers_fst)

lemma merged_team_reviewers:
  "set (snd (merged_sets config names)) = team_entries (merged_entries config names)"
  by (simp add: merged_sets_entries add_reviewers_snd)

lemma merged_distinct:
  "distinct (fst (merged_sets config names)) \<and> distinct (snd (merged_sets config names))"
  by (simp add: merged_sets_entries add_reviewers_distinct)

lemma select_reviewers_eq:
  "select_reviewers config names author =
   (if author \<in> set (fst (merged_sets config names))
    then (set_remove author (fst (merged_sets config names)), snd (merged_sets config names))
    else merged_sets config names)"
  by (cases "merged_sets config names") (simp add: select_reviewers_def)

lemma select_fst:
  "set (fst (select_reviewers config names author)) =
   individual_entries (merged_entries config names) - {author}"
  by (simp add: select_reviewers_eq set_set_remove merged_reviewers)

lemma select_snd:
  "snd (select_reviewers config names author) = snd (merged_sets config names)"
  by (simp add: select_reviewers_eq)

lemma select_distinct:
  "distinct (fst (select_reviewers config names author)) \<and>
   distinct (snd (select_reviewers config names author))"
  by (simp add: select_reviewers_eq distinct_set_remove merged_distinct)

subsection \<open>Order, multiplicity and emptiness\<close>

lemma add_reviewers_single:
  "add_reviewers reviewers team_reviewers [entry] =
     (if startswith entry ''@''
      then (reviewers, set_add (slice_from 1 entry) team_reviewers)
      else (set_add entry reviewers, team_reviewers))"
  by simp

lemma sigil_not_individual: "startswith e ''@'' \<Longrightarrow> e \<notin> individual_entries es"
  by (simp add: individual_entries_def)

lemma merged_entries_mono:
  assumes "set names \<subseteq> set names'"
  shows "set (merged_entries config names) \<subseteq> set (merged_entries config names')"
proof
  fix e assume "e \<in> set (merged_entries config names)"
  then obtain name entries where
    "name \<in> set names \<or> name = ''default''" "config name = Some entries" "e \<in> set entries"
    unfolding in_merged_entries by blast
  with assms have "\<exists>name entries. (name \<in> set names' \<or> name = ''default'')
      \<and> config name = Some entries \<and> e \<in> set entries"
    by blast
  then show "e \<in> set (merged_entries config names')"
    unfolding in_merged_entries .
qed

lemma individual_entries_mono:
  "set es \<subseteq> set es' \<Longrightarrow> individual_entries es \<subseteq> individual_entries es'"
  unfolding individual_entries_def by blast

lemma team_entries_mono:
  "set es \<subseteq> set es' \<Longrightarrow> team_entries es \<subseteq> team_entries es'"
  unfolding team_entries_def by blast

lemma select_mono:
  assumes "set names \<subseteq> set names'"
  shows "set (fst (select_reviewers config names author))
           \<subseteq> set (fst (select_reviewers config names' author))"
    and "set (snd (select_reviewers config names author))
           \<subseteq> set (snd (select_reviewers config names' author))"
proof -
  note m = merged_entries_mono [OF assms, of config]
  from individual_entries_mono [OF m]
  show "set (fst (select_reviewers config names author))
           \<subseteq> set (fst (select_reviewers config names' author))"
    unfolding select_fst by blast
  from team_entries_mono [OF m]
  show "set (snd (select_reviewers config names author))
           \<subseteq> set (snd (select_reviewers config names' author))"
    unfolding select_snd merged_team_reviewers .
qed

lemma count_list_distinct:
  "distinct xs \<Longrightarrow> count_list xs x = (if x \<in> set xs then 1 else 0)"
  by (induction xs) auto

lemma merged_entries_cong:
  "set names' = set names \<Longrightarrow> set (merged_entries config names') = set (merged_entries config names)"
  by (simp add: merged_entries_mono subset_antisym)

lemma individual_entries_cong:
  "set es' = set es \<Longrightarrow> individual_entries es' = individual_entries es"
  by (simp add: individual_entries_def)

lemma team_entries_cong:
  "set es' = set es \<Longrightarrow> team_entries es' = team_entries es"
  by (simp add: team_entries_def)

lemma merged_entries_no_keys:
  assumes "\<forall>name \<in> set names. config name = None" and "config ''default'' = None"
  shows "merged_entries config names = []"
  using assms by (simp add: merged_entries_def)

text \<open>Unfolding rules for running the selector on concrete inputs.\<close>

lemmas run_defs = select_reviewers_def merged_sets_def startswith_def slice_from_def
  set_add_def set_remove_def

subsection \<open>Author exclusion\<close>

text \<open>
  C1. Whatever the configuration, the labels and the author: the individual-reviewer
  set that the selector returns does not contain the author, however many labels or
  \<open>default\<close> entries name the author.
\<close>

theorem author_never_reviewer:
  "pull_request_author \<notin> set (fst (select_reviewers config label_names pull_request_author))"
  by (simp add: select_fst)

text \<open>
  Scenario 1 of the specification: the author is named under a matching label and is
  left out.
\<close>

theorem author_never_reviewer_witness:
  "''alice'' \<notin> set (fst (select_reviewers
       [''bug'' \<mapsto> [''alice'', ''@core-team''], ''default'' \<mapsto> [''bob'']] [''bug''] ''alice''))
   \<and> select_reviewers
       [''bug'' \<mapsto> [''alice'', ''@core-team''], ''default'' \<mapsto> [''bob'']] [''bug''] ''alice''
     = ([''bob''], [''core-team''])"
  using author_never_reviewer
    [of "''alice''" "[''bug'' \<mapsto> [''alice'', ''@core-team''], ''default'' \<mapsto> [''bob'']]" "[''bug'']"]
  by (simp add: run_defs)

subsection \<open>Classification of entries\<close>

text \<open>
  C2, amended. For every entry that the selector merges: one step of \<open>add_reviewers\<close>
  on it changes exactly one of the two sets. If the entry starts with \<open>@\<close>, the rest
  of the entry is added to \<open>team_reviewers\<close>, \<open>reviewers\<close> is left as it was, and the
  entry with its sigil is never in the returned \<open>reviewers\<close>; the name without the sigil
  is in the returned \<open>reviewers\<close> exactly when it is itself a merged entry that does not
  start with \<open>@\<close> and is not the author. Otherwise the entry is added verbatim to
  \<open>reviewers\<close> and \<open>team_reviewers\<close> is left as it was.
\<close>

theorem classification_rule:
  assumes "entry \<in> set (merged_entries config label_names)"
  shows "add_reviewers reviewers team_reviewers [entry] =
           (if startswith entry ''@''
            then (reviewers, set_add (slice_from 1 entry) team_reviewers)
            else (set_add entry reviewers, team_reviewers))
       \<and> (startswith entry ''@'' \<longrightarrow>
             slice_from 1 entry \<in> set (snd (select_reviewers config label_names author))
           \<and> entry \<notin> set (fst (select_reviewers config label_names author))
           \<and> (slice_from 1 entry \<in> set (fst (select_reviewers config label_names author))
                \<longleftrightarrow> slice_from 1 entry \<in> set (merged_entries config label_names)
                    \<and> \<not> startswith (slice_from 1 entry) ''@''
                    \<and> slice_from 1 entry \<noteq> author))
       \<and> (\<not> startswith entry ''@'' \<longrightarrow>
             entry \<in> set (fst (merged_sets config label_names))
           \<and> (entry \<noteq> author \<longrightarrow>
                 entry \<in> set (fst (select_reviewers config label_names author))))"
proof (intro conjI impI)
  show "add_reviewers reviewers team_reviewers [entry] =
           (if startswith entry ''@''
            then (reviewers, set_add (slice_from 1 entry) team_reviewers)
            else (set_add entry reviewers, team_reviewers))"
    by (rule add_reviewers_single)
next
  assume "startswith entry ''@''"
  with assms show "slice_from 1 entry \<in> set (snd (select_reviewers config label_names author))"
    by (simp add: select_snd merged_team_reviewers team_entries_def)
next
  assume "startswith entry ''@''"
  then show "entry \<notin> set (fst (select_reviewers config label_names author))"
    by (simp add: select_fst sigil_not_individual)
next
  show "slice_from 1 entry \<in> set (fst (select_reviewers config label_names author))
        \<longleftrightarrow> slice_from 1 entry \<in> set (merged_entries config label_names)
            \<and> \<not> startswith (slice_from 1 entry) ''@''
            \<and> slice_from 1 entry \<noteq> author"
    by (auto simp: select_fst individual_entries_def)
next
  assume "\<not> startswith entry ''@''"
  with assms show "entry \<in> set (fst (merged_sets config label_names))"
    by (simp add: merged_reviewers individual_entries_def)
next
  assume "\<not> startswith entry ''@''" "entry \<noteq> author"
  with assms show "entry \<in> set (fst (select_reviewers config label_names author))"
    by (simp add: select_fst individual_entries_def)
qed

text \<open>Both branches of the rule on one configuration: a team entry and a plain login.\<close>

theorem classification_rule_witness:
  "''@core'' \<in> set (merged_entries [''bug'' \<mapsto> [''@core'', ''core'']] [''bug''])
   \<and> startswith ''@core'' ''@''
   \<and> add_reviewers [] [] [''@core''] = ([], [''core''])
   \<and> ''core'' \<in> set (snd (select_reviewers [''bug'' \<mapsto> [''@core'', ''core'']] [''bug''] ''alice''))
   \<and> ''@core'' \<notin> set (fst (select_reviewers [''bug'' \<mapsto> [''@core'', ''core'']] [''bug''] ''alice''))
   \<and> ''core'' \<in> set (merged_entries [''bug'' \<mapsto> [''@core'', ''core'']] [''bug''])
   \<and> \<not> startswith ''core'' ''@''
   \<and> add_reviewers [] [] [''core''] = ([''core''], [])
   \<and> ''core'' \<in> set (fst (select_reviewers [''bug'' \<mapsto> [''@core'', ''core'']] [''bug''] ''alice''))"
  using classification_rule
          [of "''@core''" "[''bug'' \<mapsto> [''@core'', ''core'']]" "[''bug'']" "[]" "[]" "''alice''"]
        classification_rule
          [of "''core''" "[''bug'' \<mapsto> [''@core'', ''core'']]" "[''bug'']" "[]" "[]" "''alice''"]
  by (simp add: run_defs merged_entries_def)

text \<open>
  C2 as the specification words it also says that the name of a team entry, without
  its sigil, is never in \<open>reviewers\<close>. Entries are classified one by one, so a
  configuration that lists both \<open>@core\<close> and \<open>core\<close> under a matching label puts
  \<open>core\<close> into both sets.
\<close>

theorem sigil_name_in_reviewers_counterexample:
  "''@core'' \<in> set (merged_entries [''bug'' \<mapsto> [''@core'', ''core'']] [''bug''])
   \<and> startswith ''@core'' ''@''
   \<and> \<not> (''@core'' \<notin> set (fst (select_reviewers [''bug'' \<mapsto> [''@core'', ''core'']] [''bug''] ''alice''))
        \<and> slice_from 1 ''@core''
             \<notin> set (fst (select_reviewers [''bug'' \<mapsto> [''@core'', ''core'']] [''bug''] ''alice'')))"
  by (simp add: run_defs merged_entries_def)

subsection \<open>The default entries\<close>

text \<open>
  C3. When the configuration has a \<open>default\<close> key, its entries are merged by
  \<open>add_reviewers\<close> after the label loop whatever the labels are (also with none): each
  team entry is in the returned \<open>team_reviewers\<close> without its sigil, each other entry
  is in \<open>reviewers\<close> after the merge of lines 36-37 and, unless it is the author whom
  lines 39-40 then remove, in the returned \<open>reviewers\<close>. With no labels the returned
  sets are exactly the classified \<open>default\<close> entries, the author left out.
\<close>

theorem default_entries_always_merged:
  assumes "config ''default'' = Some entries"
  shows "merged_sets config label_names =
           (case label_loop config [] [] label_names of
              (reviewers, team_reviewers) \<Rightarrow> add_reviewers reviewers team_reviewers entries)
       \<and> (\<forall>entry \<in> set entries.
             (startswith entry ''@'' \<longrightarrow>
                slice_from 1 entry \<in> set (snd (select_reviewers config label_names author)))
           \<and> (\<not> startswith entry ''@'' \<longrightarrow>
                entry \<in> set (fst (merged_sets config label_names))
              \<and> (entry \<noteq> author \<longrightarrow>
                    entry \<in> set (fst (select_reviewers config label_names author)))))
       \<and> set (fst (select_reviewers config [] author)) = individual_entries entries - {author}
       \<and> set (snd (select_reviewers config [] author)) = team_entries entries"
proof (intro conjI ballI impI)
  show "merged_sets config label_names =
           (case label_loop config [] [] label_names of
              (reviewers, team_reviewers) \<Rightarrow> add_reviewers reviewers team_reviewers entries)"
    by (simp add: merged_sets_def assms)
next
  have empty: "merged_entries config [] = entries"
    by (simp add: merged_entries_def assms)
  show "set (fst (select_reviewers config [] author)) = individual_entries entries - {author}"
    by (simp add: select_fst empty)
  show "set (snd (select_reviewers config [] author)) = team_entries entries"
    by (simp add: select_snd merged_team_reviewers empty)
next
  fix entry assume "entry \<in> set entries"
  with assms have m: "entry \<in> set (merged_entries config label_names)"
    unfolding in_merged_entries by blast
  {
    assume "startswith entry ''@''"
    with m show "slice_from 1 entry \<in> set (snd (select_reviewers config label_names author))"
      by (simp add: select_snd merged_team_reviewers team_entries_def)
  }
  {
    assume "\<not> startswith entry ''@''"
    with m show "entry \<in> set (fst (merged_sets config label_names))"
      by (simp add: merged_reviewers individual_entries_def)
  }
  {
    assume "\<not> startswith entry ''@''" "entry \<noteq> author"
    with m show "entry \<in> set (fst (select_reviewers config label_names author))"
      by (simp add: select_fst individual_entries_def)
  }
qed

text \<open>
  Scenario 2 of the specification (no labels), and the same configuration under a
  label that is not a key.
\<close>

theorem default_entries_always_merged_witness:
  "[''default'' \<mapsto> [''carol'', ''@qa'']] ''default'' = Some [''carol'', ''@qa'']
   \<and> select_reviewers [''default'' \<mapsto> [''carol'', ''@qa'']] [] ''dave'' = ([''carol''], [''qa''])
   \<and> ''carol'' \<in> set (fst (select_reviewers [''default'' \<mapsto> [''carol'', ''@qa'']] [''bug''] ''dave''))
   \<and> ''qa'' \<in> set (snd (select_reviewers [''default'' \<mapsto> [''carol'', ''@qa'']] [''bug''] ''dave''))"
proof -
  have d: "[''default'' \<mapsto> [''carol'', ''@qa'']] ''default'' = Some [''carol'', ''@qa'']"
    by simp
  note merged = default_entries_always_merged
    [of "[''default'' \<mapsto> [''carol'', ''@qa'']]" "[''carol'', ''@qa'']" "[''bug'']" "''dave''", OF d]
  from merged [THEN conjunct2, THEN conjunct1]
  have "''carol'' \<in> set (fst (select_reviewers [''default'' \<mapsto> [''carol'', ''@qa'']] [''bug''] ''dave''))"
    and "''qa'' \<in> set (snd (select_reviewers [''default'' \<mapsto> [''carol'', ''@qa'']] [''bug''] ''dave''))"
    by (simp_all add: startswith_def slice_from_def)
  moreover
  have "select_reviewers [''default'' \<mapsto> [''carol'', ''@qa'']] [] ''dave'' = ([''carol''], [''qa''])"
    by (simp add: run_defs)
  ultimately show ?thesis
    using d by blast
qed

subsection \<open>Monotonicity in the labels\<close>

text \<open>
  C4. For a label \<open>x\<close> that is a key of the configuration and label lists whose sets
  are \<open>L\<close> and \<open>L \<union> {x}\<close>: both returned sets for \<open>L \<union> {x}\<close> contain those for
  \<open>L\<close>.
\<close>

theorem label_matching_monotone:
  assumes "config x = Some entries"
      and "set label_names' = insert x (set label_names)"
  shows "set (fst (select_reviewers config label_names author))
           \<subseteq> set (fst (select_reviewers config label_names' author))
       \<and> set (snd (select_reviewers config label_names author))
           \<subseteq> set (snd (select_reviewers config label_names' author))"
proof -
  from assms(2) have "set label_names \<subseteq> set label_names'"
    by blast
  then show ?thesis
    by (simp add: select_mono)
qed

theorem label_matching_monotone_witness:
  "[''bug'' \<mapsto> [''alice''], ''docs'' \<mapsto> [''@writers'', ''bob'']] ''docs'' = Some [''@writers'', ''bob'']
   \<and> set [''docs'', ''bug''] = insert ''docs'' (set [''bug''])
   \<and> select_reviewers [''bug'' \<mapsto> [''alice''], ''docs'' \<mapsto> [''@writers'', ''bob'']] [''bug''] ''eve''
       = ([''alice''], [])
   \<and> select_reviewers [''bug'' \<mapsto> [''alice''], ''docs'' \<mapsto> [''@writers'', ''bob'']] [''docs'', ''bug''] ''eve''
       = ([''bob'', ''alice''], [''writers''])
   \<and> set (fst (select_reviewers [''bug'' \<mapsto> [''alice''], ''docs'' \<mapsto> [''@writers'', ''bob'']] [''bug''] ''eve''))
       \<subseteq> set (fst (select_reviewers [''bug'' \<mapsto> [''alice''], ''docs'' \<mapsto> [''@writers'', ''bob'']] [''docs'', ''bug''] ''eve''))
   \<and> set (snd (select_reviewers [''bug'' \<mapsto> [''alice''], ''docs'' \<mapsto> [''@writers'', ''bob'']] [''bug''] ''eve''))
       \<subseteq> set (snd (select_reviewers [''bug'' \<mapsto> [''alice''], ''docs'' \<mapsto> [''@writers'', ''bob'']] [''docs'', ''bug''] ''eve''))"
  using label_matching_monotone
          [of "[''bug'' \<mapsto> [''alice''], ''docs'' \<mapsto> [''@writers'', ''bob'']]" "''docs''"
              "[''@writers'', ''bob'']" "[''docs'', ''bug'']" "[''bug'']" "''eve''"]
  by (simp add: run_defs)

subsection \<open>Determinism and union semantics\<close>

text \<open>
  C5. The selector is a function of the configuration, the labels and the author, and
  of the labels only their set matters: two label lists with the same elements, in any
  order and multiplicity, give the same two sets. Both returned lists are free of
  duplicates, and an entry named under two matching labels, or under a label and
  \<open>default\<close>, occurs exactly once in the set built by lines 29-37; in the returned
  lists it still occurs once, except that the author's own login has been removed from
  \<open>reviewers\<close> by lines 39-40.
\<close>

theorem selection_deterministic_union:
  "(set label_names' = set label_names \<longrightarrow>
        set (fst (select_reviewers config label_names' author))
          = set (fst (select_reviewers config label_names author))
      \<and> set (snd (select_reviewers config label_names' author))
          = set (snd (select_reviewers config label_names author)))
   \<and> distinct (fst (select_reviewers config label_names author))
   \<and> distinct (snd (select_reviewers config label_names author))
   \<and> (name1 \<in> set label_names \<and> config name1 = Some entries1 \<and> entry \<in> set entries1
        \<and> (name2 \<in> set label_names \<or> name2 = ''default'')
        \<and> config name2 = Some entries2 \<and> entry \<in> set entries2 \<longrightarrow>
          (if startswith entry ''@''
           then count_list (snd (merged_sets config label_names)) (slice_from 1 entry) = 1
              \<and> count_list (snd (select_reviewers config label_names author))
                    (slice_from 1 entry) = 1
           else count_list (fst (merged_sets config label_names)) entry = 1
              \<and> count_list (fst (select_reviewers config label_names author)) entry
                    = (if entry = author then 0 else 1)))"
proof (intro conjI impI)
  assume "set label_names' = set label_names"
  note same = merged_entries_cong [OF this, of config]
  show "set (fst (select_reviewers config label_names' author))
           = set (fst (select_reviewers config label_names author))"
    by (simp add: select_fst individual_entries_cong [OF same])
  show "set (snd (select_reviewers config label_names' author))
           = set (snd (select_reviewers config label_names author))"
    by (simp add: select_snd merged_team_reviewers team_entries_cong [OF same])
next
  show "distinct (fst (select_reviewers config label_names author))"
    and "distinct (snd (select_reviewers config label_names author))"
    by (simp_all add: select_distinct)
next
  assume named: "name1 \<in> set label_names \<and> config name1 = Some entries1 \<and> entry \<in> set entries1
        \<and> (name2 \<in> set label_names \<or> name2 = ''default'')
        \<and> config name2 = Some entries2 \<and> entry \<in> set entries2"
  then have m: "entry \<in> set (merged_entries config label_names)"
    unfolding in_merged_entries by blast
  show "if startswith entry ''@''
        then count_list (snd (merged_sets config label_names)) (slice_from 1 entry) = 1
           \<and> count_list (snd (select_reviewers config label_names author))
                 (slice_from 1 entry) = 1
        else count_list (fst (merged_sets config label_names)) entry = 1
           \<and> count_list (fst (select_reviewers config label_names author)) entry
                 = (if entry = author then 0 else 1)"
  proof (cases "startswith entry ''@''")
    case True
    with m have "slice_from 1 entry \<in> set (snd (merged_sets config label_names))"
      by (simp add: merged_team_reviewers team_entries_def)
    then have "count_list (snd (merged_sets config label_names)) (slice_from 1 entry) = 1"
      by (simp add: count_list_distinct merged_distinct)
    with True show ?thesis
      by (simp add: select_snd)
  next
    case False
    with m have i: "entry \<in> individual_entries (merged_entries config label_names)"
      by (simp add: individual_entries_def)
    then have "count_list (fst (merged_sets config label_names)) entry = 1"
      by (simp add: count_list_distinct merged_distinct merged_reviewers)
    moreover from i have "count_list (fst (select_reviewers config label_names author)) entry
                 = (if entry = author then 0 else 1)"
      by (simp add: count_list_distinct select_distinct select_fst)
    ultimately show ?thesis
      using False by simp
  qed
qed

text \<open>
  Two labels that name the same login and the same team, with the labels listed in
  another order and one of them twice.
\<close>

theorem selection_deterministic_union_witness:
  "set [''docs'', ''bug'', ''docs''] = set [''bug'', ''docs'']
   \<and> select_reviewers [''bug'' \<mapsto> [''bob'', ''@core''], ''docs'' \<mapsto> [''@core'', ''bob'']]
        [''bug'', ''docs''] ''alice'' = ([''bob''], [''core''])
   \<and> select_reviewers [''bug'' \<mapsto> [''bob'', ''@core''], ''docs'' \<mapsto> [''@core'', ''bob'']]
        [''docs'', ''bug'', ''docs''] ''alice'' = ([''bob''], [''core''])
   \<and> count_list (fst (select_reviewers [''bug'' \<mapsto> [''bob'', ''@core''], ''docs'' \<mapsto> [''@core'', ''bob'']]
        [''bug'', ''docs''] ''alice'')) ''bob'' = 1
   \<and> count_list (snd (select_reviewers [''bug'' \<mapsto> [''bob'', ''@core''], ''docs'' \<mapsto> [''@core'', ''bob'']]
        [''bug'', ''docs''] ''alice'')) ''core'' = 1"
proof -
  have same: "set [''docs'', ''bug'', ''docs''] = set [''bug'', ''docs'']"
    by auto
  show ?thesis
    using same
      selection_deterministic_union
        [of "[''docs'', ''bug'', ''docs'']" "[''bug'', ''docs'']"
            "[''bug'' \<mapsto> [''bob'', ''@core''], ''docs'' \<mapsto> [''@core'', ''bob'']]" "''alice''"
            "''bug''" "[''bob'', ''@core'']" "''bob''" "''docs''" "[''@core'', ''bob'']"]
      selection_deterministic_union
        [of "[''docs'', ''bug'', ''docs'']" "[''bug'', ''docs'']"
            "[''bug'' \<mapsto> [''bob'', ''@core''], ''docs'' \<mapsto> [''@core'', ''bob'']]" "''alice''"
            "''bug''" "[''bob'', ''@core'']" "''@core''" "''docs''" "[''@core'', ''bob'']"]
    by (simp add: run_defs)
qed

subsection \<open>A pull request that is not found\<close>

text \<open>
  What \<open>update_reviewers\<close> itself does when the lookup gives no pull request: a raising
  lookup passes its exception on, and a lookup that returns \<open>None\<close> reaches line 25,
  where the call of \<open>sys.stderr.writable\<close> with an argument raises \<open>TypeError\<close>. In
  both cases nothing has been written or requested, and line 26 is not reached.
\<close>

lemma update_reviewers_unresolved:
  assumes "\<forall>pull_request. repo pr_id \<noteq> Inr (Some pull_request)"
  shows "update_reviewers config repo pr_id =
           (Inl (case repo pr_id of Inl e \<Rightarrow> e | Inr found \<Rightarrow> TypeError), [])"
proof (cases "repo pr_id")
  case (Inl e)
  then show ?thesis
    by (simp add: update_reviewers_def)
next
  case (Inr found)
  with assms have "found = None"
    by (cases found) auto
  with Inr show ?thesis
    by (simp add: update_reviewers_def)
qed

text \<open>
  C6. When the lookup of the pull request does not resolve (it raises, as the platform
  client does for an unknown id, or it returns \<open>None\<close>), the process ends with exit
  status 1, a diagnostic has been written to the error stream, and
  \<open>create_review_request\<close> has not been called: the one event of the run is the
  traceback of the exception on the error stream. The message \<open>Unknown PR\<close> of line 25
  is not part of it.
\<close>

theorem unresolved_lookup_exits_1:
  assumes "\<forall>pull_request. repo pr_id \<noteq> Inr (Some pull_request)"
  shows "script_exit config repo pr_id =
           (1, [Stderr_traceback (case repo pr_id of Inl e \<Rightarrow> e | Inr found \<Rightarrow> TypeError)])
       \<and> fst (script_exit config repo pr_id) = 1
       \<and> (\<exists>e. Stderr_traceback e \<in> set (snd (script_exit config repo pr_id)))
       \<and> (\<nexists>reviewers team_reviewers.
             Create_review_request reviewers team_reviewers
               \<in> set (snd (script_exit config repo pr_id)))"
  by (simp add: script_exit_def update_reviewers_unresolved [of repo pr_id config, OF assms])

text \<open>
  Scenario 5 of the specification, once with a lookup that raises the client's error
  for an unknown id and once with a lookup that returns \<open>None\<close>.
\<close>

theorem unresolved_lookup_exits_1_witness:
  "script_exit [''default'' \<mapsto> [''carol'']] (\<lambda>i. Inl (GithubException ''404 Not Found'')) 7
     = (1, [Stderr_traceback (GithubException ''404 Not Found'')])
   \<and> script_exit [''default'' \<mapsto> [''carol'']] (\<lambda>i. Inr None) 7
     = (1, [Stderr_traceback TypeError])"
  using unresolved_lookup_exits_1
          [of "\<lambda>i. Inl (GithubException ''404 Not Found'')" 7 "[''default'' \<mapsto> [''carol'']]"]
        unresolved_lookup_exits_1
          [of "\<lambda>i. Inr None" 7 "[''default'' \<mapsto> [''carol'']]"]
  by simp

subsection \<open>Outcome of the review request\<close>



subsection \<open>Nothing to request\<close>

text \<open>
  C8. For a pull request that is found: when none of its labels is a key of the
  configuration and there is no \<open>default\<close> key, the selector returns two empty sets,
  and the run still announces and makes the call to \<open>create_review_request\<close>, with the
  empty list as both arguments.
\<close>

theorem empty_request_still_submitted:
  assumes "repo pr_id = Inr (Some pr)"
      and "\<forall>name \<in> set (labels pr). config name = None"
      and "config ''default'' = None"
  shows "select_reviewers config (labels pr) (user_login pr) = ([], [])
       \<and> take 2 (snd (update_reviewers config repo pr_id))
           = [Stdout_attempt [] [], Create_review_request [] []]"
proof -
  from assms(2,3) have "merged_sets config (labels pr) = ([], [])"
    by (simp add: merged_sets_entries merged_entries_no_keys)
  then have sel: "select_reviewers config (labels pr) (user_login pr) = ([], [])"
    by (simp add: select_reviewers_def)
  with assms(1) show ?thesis
    by (simp add: update_reviewers_def Let_def numeral_2_eq_2 split: option.split exn.split)
qed

text \<open>Scenario 4 of the specification.\<close>

theorem empty_request_still_submitted_witness:
  "update_reviewers Map.empty
     (\<lambda>i. Inr (Some \<lparr>user_login = ''frank'', labels = [''bug''],
                      create_review_request = (\<lambda>r t. None)\<rparr>)) 4
     = (Inr 0, [Stdout_attempt [] [], Create_review_request [] []])
   \<and> select_reviewers Map.empty [''bug''] ''frank'' = ([], [])"
  using empty_request_still_submitted
          [of "\<lambda>i. Inr (Some \<lparr>user_login = ''frank'', labels = [''bug''],
                      create_review_request = (\<lambda>r t. None)\<rparr>)"
              4 "\<lparr>user_login = ''frank'', labels = [''bug''],
                      create_review_request = (\<lambda>r t. None)\<rparr>"
              Map.empty]
  by (simp add: update_reviewers_def)

subsection \<open>The author behind a team sigil\<close>

text \<open>
  C9. The exclusion of lines 39-40 touches \<open>reviewers\<close> only: \<open>team_reviewers\<close> is
  returned as merged, and when some merged entry is \<open>@\<close> followed by the author's
  login, that login is in the returned \<open>team_reviewers\<close>.
\<close>

theorem author_team_entry_kept:
  assumes "name \<in> set label_names \<or> name = ''default''"
      and "config name = Some entries"
      and "(CHR ''@'' # author) \<in> set entries"
  shows "author \<in> set (snd (select_reviewers config label_names author))
       \<and> snd (select_reviewers config label_names author) = snd (merged_sets config label_names)"
proof -
  from assms have "(CHR ''@'' # author) \<in> set (merged_entries config label_names)"
    unfolding in_merged_entries by blast
  moreover have "startswith (CHR ''@'' # author) ''@''" "slice_from 1 (CHR ''@'' # author) = author"
    by (simp_all add: startswith_def slice_from_def)
  ultimately have "author \<in> team_entries (merged_entries config label_names)"
    unfolding team_entries_def by force
  then show ?thesis
    by (simp add: select_snd merged_team_reviewers)
qed

text \<open>The author named both as a team and as a login: only the login is dropped.\<close>

theorem author_team_entry_kept_witness:
  "[''bug'' \<mapsto> [''@alice'', ''alice'']] ''bug'' = Some [''@alice'', ''alice'']
   \<and> CHR ''@'' # ''alice'' \<in> set [''@alice'', ''alice'']
   \<and> ''alice'' \<in> set (snd (select_reviewers [''bug'' \<mapsto> [''@alice'', ''alice'']] [''bug''] ''alice''))
   \<and> select_reviewers [''bug'' \<mapsto> [''@alice'', ''alice'']] [''bug''] ''alice'' = ([], [''alice''])"
  using author_team_entry_kept
          [of "''bug''" "[''bug'']" "[''bug'' \<mapsto> [''@alice'', ''alice'']]" "[''@alice'', ''alice'']" "''alice''"]
  by (simp add: run_defs)

subsection \<open>Degenerate entries\<close>

text \<open>
  C10. The classification looks at the first character only and has a result for every
  string: the entry \<open>@\<close> adds the empty string to \<open>team_reviewers\<close>, the empty entry is
  added verbatim to \<open>reviewers\<close>, a non-empty entry goes to \<open>team_reviewers\<close> (without
  its first character) exactly when that character is \<open>@\<close>, and the selector returns
  its two sets on a configuration made of the two degenerate entries.
\<close>

theorem classification_by_first_character:
  "add_reviewers reviewers team_reviewers [''@''] = (reviewers, set_add '''' team_reviewers)
   \<and> add_reviewers reviewers team_reviewers [''''] = (set_add '''' reviewers, team_reviewers)
   \<and> add_reviewers reviewers team_reviewers [c # rest] =
        (if c = CHR ''@'' then (reviewers, set_add rest team_reviewers)
         else (set_add (c # rest) reviewers, team_reviewers))
   \<and> select_reviewers [''bug'' \<mapsto> [''@'', '''']] [''bug''] author
        = (if author = '''' then [] else [''''], [''''])"
  by (simp add: run_defs)

theorem classification_by_first_character_witness:
  "add_reviewers [] [] [''@''] = ([], [''''])
   \<and> add_reviewers [] [] [''''] = ([''''], [])
   \<and> add_reviewers [] [] [''@@a'', ''a@''] = ([''a@''], [''@a''])
   \<and> select_reviewers [''bug'' \<mapsto> [''@'', '''']] [''bug''] ''alice'' = ([''''], [''''])"
  using classification_by_first_character [of "[]" "[]" "CHR ''@''" "''@a''" "''alice''"]
  by (simp add: run_defs)

end
